theory Spec2Isabelle
  imports Main
begin

section \<open>The listing extractor of \<open>family_letter_crawler.py\<close>\<close>

text \<open>
  The module has one function, \<open>crawl_school_letters(url, site_name)\<close>. It fetches a
  page, parses it into a tree, looks for the table body of the notice list, turns each
  row of it into a record and returns the records in an envelope.
\<close>

subsection \<open>Strings and the three regular expressions\<close>

text \<open>
  A Python string is the list of its code points. \<open>py\<close> gives the string of a literal
  of the source that has ASCII characters only.
\<close>

type_synonym pystr = "int list"

definition py :: "string \<Rightarrow> pystr" where
  "py s = map of_char s"

text \<open>
  \<open>\d\<close> of \<open>re\<close>, on a string, is a decimal digit of Unicode (the category Nd). The
  ranges are those of Unicode 14.0, the table of Python 3.11: the ten digits of each
  script, and the fifty mathematical digits.
\<close>

definition decimal_ranges :: "(int \<times> int) list" where
  "decimal_ranges =
     [(0x30, 0x39), (0x660, 0x669), (0x6F0, 0x6F9), (0x7C0, 0x7C9), (0x966, 0x96F),
      (0x9E6, 0x9EF), (0xA66, 0xA6F), (0xAE6, 0xAEF), (0xB66, 0xB6F), (0xBE6, 0xBEF),
      (0xC66, 0xC6F), (0xCE6, 0xCEF), (0xD66, 0xD6F), (0xDE6, 0xDEF), (0xE50, 0xE59),
      (0xED0, 0xED9), (0xF20, 0xF29), (0x1040, 0x1049), (0x1090, 0x1099),
      (0x17E0, 0x17E9), (0x1810, 0x1819), (0x1946, 0x194F), (0x19D0, 0x19D9),
      (0x1A80, 0x1A89), (0x1A90, 0x1A99), (0x1B50, 0x1B59), (0x1BB0, 0x1BB9),
      (0x1C40, 0x1C49), (0x1C50, 0x1C59), (0xA620, 0xA629), (0xA8D0, 0xA8D9),
      (0xA900, 0xA909), (0xA9D0, 0xA9D9), (0xA9F0, 0xA9F9), (0xAA50, 0xAA59),
      (0xABF0, 0xABF9), (0xFF10, 0xFF19), (0x104A0, 0x104A9), (0x10D30, 0x10D39),
      (0x11066, 0x1106F), (0x110F0, 0x110F9), (0x11136, 0x1113F), (0x111D0, 0x111D9),
      (0x112F0, 0x112F9), (0x11450, 0x11459), (0x114D0, 0x114D9), (0x11650, 0x11659),
      (0x116C0, 0x116C9), (0x11730, 0x11739), (0x118E0, 0x118E9), (0x11950, 0x11959),
      (0x11C50, 0x11C59), (0x11D50, 0x11D59), (0x11DA0, 0x11DA9), (0x16A60, 0x16A69),
      (0x16AC0, 0x16AC9), (0x16B50, 0x16B59), (0x1D7CE, 0x1D7FF), (0x1E140, 0x1E149),
      (0x1E2F0, 0x1E2F9), (0x1E950, 0x1E959), (0x1FBF0, 0x1FBF9)]"

definition is_digit :: "int \<Rightarrow> bool" where
  "is_digit c \<longleftrightarrow> list_ex (\<lambda>(lo, hi). lo \<le> c \<and> c \<le> hi) decimal_ranges"

text \<open>The characters that \<open>str.strip()\<close> removes, those of \<open>str.isspace()\<close>.\<close>

definition is_space :: "int \<Rightarrow> bool" where
  "is_space c \<longleftrightarrow>
     c \<in> set [0x09, 0x0A, 0x0B, 0x0C, 0x0D, 0x1C, 0x1D, 0x1E, 0x1F, 0x20, 0x85, 0xA0, 0x1680,
               0x2000, 0x2001, 0x2002, 0x2003, 0x2004, 0x2005, 0x2006, 0x2007, 0x2008,
               0x2009, 0x200A, 0x2028, 0x2029, 0x202F, 0x205F, 0x3000]"

text \<open>\<open>s.strip()\<close>\<close>

definition strip :: "pystr \<Rightarrow> pystr" where
  "strip s = rev (dropWhile is_space (rev (dropWhile is_space s)))"

text \<open>\<open>s.startswith(p)\<close>\<close>

definition startswith :: "pystr \<Rightarrow> pystr \<Rightarrow> bool" where
  "startswith s p \<longleftrightarrow> take (length p) s = p"

text \<open>\<open>s.replace('.', '-')\<close>\<close>

definition replace_dots :: "pystr \<Rightarrow> pystr" where
  "replace_dots s = map (\<lambda>c. if c = of_char (CHR ''.'') then of_char (CHR ''-'') else c) s"

text \<open>
  \<open>re.match(r'\d{4}\.\d{2}\.\d{2}', s)\<close>: the pattern has one length, ten characters,
  so it matches at the start of \<open>s\<close> exactly when the first ten characters have the
  shape.
\<close>

fun is_date_token :: "pystr \<Rightarrow> bool" where
  "is_date_token [a, b, c, d, p, e, f, q, g, h] \<longleftrightarrow>
     is_digit a \<and> is_digit b \<and> is_digit c \<and> is_digit d \<and> p = of_char (CHR ''.'') \<and>
     is_digit e \<and> is_digit f \<and> q = of_char (CHR ''.'') \<and> is_digit g \<and> is_digit h"
| "is_date_token _ \<longleftrightarrow> False"

definition re_match_date :: "pystr \<Rightarrow> bool" where
  "re_match_date s \<longleftrightarrow> is_date_token (take 10 s)"

text \<open>
  \<open>re.search(r'(\d{4}\.\d{2}\.\d{2})', s)\<close>, group 1: the match at the leftmost
  position where the pattern matches.
\<close>

fun re_search_date :: "pystr \<Rightarrow> pystr option" where
  "re_search_date [] = None"
| "re_search_date (c # r) =
     (if re_match_date (c # r) then Some (take 10 (c # r)) else re_search_date r)"

text \<open>
  \<open>re.search(r"['\"](\d+)['\"]", s)\<close>, group 1. After a quote the greedy \<open>\d+\<close>
  takes the whole run of digits; a shorter run would need a digit to be a quote, so
  backtracking never finds another match at the same position.
\<close>

definition is_quote :: "int \<Rightarrow> bool" where
  "is_quote c \<longleftrightarrow> c = of_char (CHR 0x27) \<or> c = of_char (CHR 0x22)"

fun re_search_quoted_digits :: "pystr \<Rightarrow> pystr option" where
  "re_search_quoted_digits [] = None"
| "re_search_quoted_digits (c # r) =
     (if is_quote c \<and> takeWhile is_digit r \<noteq> [] \<and>
         (case dropWhile is_digit r of [] \<Rightarrow> False | q # _ \<Rightarrow> is_quote q)
      then Some (takeWhile is_digit r)
      else re_search_quoted_digits r)"

text \<open>
  \<open>re.search(r'https?://(?:www\.)?([^/]+)', url)\<close>, group 1. At one position: \<open>http\<close>,
  an optional \<open>s\<close>, \<open>://\<close>, then \<open>www.\<close> is skipped when a character other than
  \<open>/\<close> follows it (otherwise the optional group matches nothing and \<open>www.\<close> itself
  is the host), then the longest run without \<open>/\<close>, which must not be empty.
\<close>

definition not_slash :: "int \<Rightarrow> bool" where
  "not_slash c \<longleftrightarrow> c \<noteq> of_char (CHR ''/'')"

definition host_after_scheme :: "pystr \<Rightarrow> pystr option" where
  "host_after_scheme r =
     (if startswith r (py ''www.'') \<and> takeWhile not_slash (drop 4 r) \<noteq> []
      then Some (takeWhile not_slash (drop 4 r))
      else if takeWhile not_slash r \<noteq> [] then Some (takeWhile not_slash r)
      else None)"

definition host_match_at :: "pystr \<Rightarrow> pystr option" where
  "host_match_at s =
     (if startswith s (py ''https://'') then host_after_scheme (drop 8 s)
      else if startswith s (py ''http://'') then host_after_scheme (drop 7 s)
      else None)"

fun re_search_host :: "pystr \<Rightarrow> pystr option" where
  "re_search_host [] = None"
| "re_search_host (c # r) =
     (case host_match_at (c # r) of Some h \<Rightarrow> Some h | None \<Rightarrow> re_search_host r)"

subsection \<open>The parse tree\<close>

text \<open>
  What BeautifulSoup builds: a text node, or a tag with its name, its attributes with
  string values (\<open>id\<close>, \<open>href\<close>, \<open>onclick\<close>, ...), the tokens of its \<open>class\<close>
  attribute, and its children. The attributes are a dictionary, so a key occurs once.
  The document itself is a tag named \<open>[document]\<close> without attributes. Comments
  and the other strings that \<open>get_text\<close> leaves out are not part of the tree.

  The names of the tags, the keys of the attributes and the tokens of \<open>class\<close> are
  only ever compared with constants of the source, and are kept as \<^typ>\<open>string\<close>;
  the texts and the values of the attributes are Python strings.
\<close>

datatype node =
  NavigableString pystr
| Tag (name: string) (attrs: "(string \<times> pystr) list") (classes: "string list")
      (contents: "node list")

fun is_tag :: "node \<Rightarrow> bool" where
  "is_tag (NavigableString _) = False"
| "is_tag (Tag _ _ _ _) = True"

text \<open>All nodes below a node, in document order.\<close>

fun descendants :: "node \<Rightarrow> node list" where
  "descendants (NavigableString s) = []"
| "descendants (Tag n a k cs) = concat (map (\<lambda>c. c # descendants c) cs)"

definition named :: "string \<Rightarrow> node \<Rightarrow> bool" where
  "named n x \<longleftrightarrow> is_tag x \<and> name x = n"

definition has_class :: "string \<Rightarrow> node \<Rightarrow> bool" where
  "has_class k x \<longleftrightarrow> is_tag x \<and> k \<in> set (classes x)"

definition has_id :: "string \<Rightarrow> node \<Rightarrow> bool" where
  "has_id i x \<longleftrightarrow> is_tag x \<and> map_of (attrs x) ''id'' = Some (py i)"

text \<open>\<open>x.find_all(...)\<close> and \<open>x.find(...)\<close> with a test on the tag.\<close>

definition find_all :: "(node \<Rightarrow> bool) \<Rightarrow> node \<Rightarrow> node list" where
  "find_all p x = filter p (descendants x)"

definition find_node :: "(node \<Rightarrow> bool) \<Rightarrow> node \<Rightarrow> node option" where
  "find_node p x = (case find_all p x of [] \<Rightarrow> None | y # _ \<Rightarrow> Some y)"

text \<open>\<open>x.get(key, '')\<close>\<close>

definition get :: "node \<Rightarrow> string \<Rightarrow> pystr" where
  "get x key = (case map_of (attrs x) key of None \<Rightarrow> [] | Some v \<Rightarrow> v)"

text \<open>
  \<open>x.get_text(strip=True)\<close>: every text below \<open>x\<close> is stripped, the empty ones are
  dropped and the rest is joined without a separator.
\<close>

fun text_of :: "node \<Rightarrow> pystr list" where
  "text_of (NavigableString s) = [s]"
| "text_of (Tag _ _ _ _) = []"

definition get_text :: "node \<Rightarrow> pystr" where
  "get_text x =
     concat (filter (\<lambda>s. s \<noteq> []) (map strip (concat (map text_of (descendants x)))))"

text \<open>
  \<open>soup.select_one('#subContent > div > div.BD_list > table > tbody')\<close>: the first
  \<open>tbody\<close>, in document order, whose parent is a \<open>table\<close>, whose parent is a
  \<open>div\<close> of class \<open>BD_list\<close>, whose parent is a \<open>div\<close>, whose parent has the id
  \<open>subContent\<close>. \<open>with_ancestors\<close> lists the nodes below a node, each with its
  ancestors, the parent first.
\<close>

fun with_ancestors :: "node list \<Rightarrow> node \<Rightarrow> (node \<times> node list) list" where
  "with_ancestors anc (NavigableString s) = []"
| "with_ancestors anc (Tag n a k cs) =
     concat (map (\<lambda>c. (c, Tag n a k cs # anc) # with_ancestors (Tag n a k cs # anc) c) cs)"

fun child_chain :: "(node \<Rightarrow> bool) list \<Rightarrow> node list \<Rightarrow> bool" where
  "child_chain [] anc = True"
| "child_chain (p # ps) [] = False"
| "child_chain (p # ps) (x # anc) = (p x \<and> child_chain ps anc)"

definition select_one_tbody :: "node \<Rightarrow> node option" where
  "select_one_tbody soup =
     (case filter (\<lambda>(x, anc). named ''tbody'' x \<and>
                     child_chain [named ''table'',
                                  (\<lambda>y. named ''div'' y \<and> has_class ''BD_list'' y),
                                  named ''div'', has_id ''subContent''] anc)
                  (with_ancestors [] soup) of
        [] \<Rightarrow> None
      | (x, _) # _ \<Rightarrow> Some x)"

subsection \<open>The collaborators, the records and the log\<close>

text \<open>
  An exception is an instance of \<open>requests.RequestException\<close> or another instance of
  \<open>Exception\<close>, with its text, \<open>str(e)\<close>. The collaborators of the function are given
  as an environment:
  \<^item> \<open>http_get url\<close> is \<open>requests.get(url, headers=headers, timeout=10)\<close> with
    \<open>raise_for_status()\<close>: the text of the response, or the exception raised;
  \<^item> \<open>html_parse text\<close> is \<open>BeautifulSoup(text, 'html.parser')\<close>: the tree, or the
    exception raised;
  \<^item> \<open>urljoin base link\<close> is \<open>urllib.parse.urljoin\<close>, which raises \<open>ValueError\<close> on
    some links;
  \<^item> \<open>today\<close> is \<open>datetime.now().strftime("%Y-%m-%d")\<close>.
\<close>

datatype exc = RequestException (exc_str: pystr) | Exception (exc_str: pystr)

record env =
  http_get :: "pystr \<Rightarrow> exc + pystr"
  html_parse :: "pystr \<Rightarrow> exc + node"
  urljoin :: "pystr \<Rightarrow> pystr \<Rightarrow> exc + pystr"
  today :: pystr

record letter =
  number :: pystr
  title :: pystr
  author :: pystr
  date :: pystr
  views :: pystr
  url :: pystr
  has_attachment :: bool

text \<open>The dictionary \<open>meta\<close>; its key \<open>url\<close> is \<open>page_url\<close>, and \<open>error\<close> is
  \<open>None\<close> when the key is absent.\<close>

record meta_info =
  total_count :: int
  last_updated :: pystr
  source :: pystr
  page_url :: pystr
  error :: "pystr option"

record envelope =
  letters :: "letter list"
  meta :: meta_info


datatype log_call =
  Log_start pystr
| Log_request_error exc
| Log_table_not_found
| Log_date_at nat pystr
| Log_no_date "pystr list"
| Log_row_error exc
| Log_done nat
| Log_parse_error exc


text \<open>The constants of the source that are not ASCII, as their code points.\<close>

definition marker_notice :: pystr where
  "marker_notice =
     [0xACF5, 0xC9C0]"

definition marker_joint_notice :: pystr where
  "marker_joint_notice =
     [0xD1B5, 0xD569, 0xACF5, 0xC9C0]"

definition table_not_found_message :: pystr where
  "table_not_found_message =
     [0xAC00, 0xC815, 0xD1B5, 0xC2E0, 0xBB38, 0x20, 0xD14C, 0xC774, 0xBE14, 0xC744,
      0x20, 0xCC3E, 0xC744, 0x20, 0xC218, 0x20, 0xC5C6, 0xC2B5, 0xB2C8, 0xB2E4, 0x2E]"

definition parse_error_prefix :: pystr where
  "parse_error_prefix =
     [0x48, 0x54, 0x4D, 0x4C, 0x20, 0xD30C, 0xC2F1, 0x20, 0xC624, 0xB958, 0x3A, 0x20]"

definition detail_url_template :: pystr where
  "detail_url_template =
     py ''/ocheonhs/na/ntt/selectNttView.do?mi=159125&bbsId=76556&nttSn=''"

subsection \<open>Looking for the table body\<close>

text \<open>
  The four methods of the source, in its order. A tag is true in Python whatever it
  holds, so \<open>if not tbody\<close> asks whether \<open>tbody\<close> is \<open>None\<close>.
\<close>

text \<open>Method 2: by steps from the element with the id \<open>subContent\<close>.\<close>

definition stepwise_tbody :: "node \<Rightarrow> node option" where
  "stepwise_tbody soup =
     (case find_node (has_id ''subContent'') soup of
        None \<Rightarrow> None
      | Some sub_content \<Rightarrow>
          (case find_node (named ''div'') sub_content of
             None \<Rightarrow> None
           | Some first_div \<Rightarrow>
               (case find_node (\<lambda>y. named ''div'' y \<and> has_class ''BD_list'' y) first_div of
                  None \<Rightarrow> None
                | Some bd_list \<Rightarrow>
                    (case find_node (named ''table'') bd_list of
                       None \<Rightarrow> None
                     | Some table \<Rightarrow> find_node (named ''tbody'') table))))"

text \<open>Method 3: the first \<open>div\<close> of class \<open>BD_list\<close> anywhere.\<close>

definition bd_list_tbody :: "node \<Rightarrow> node option" where
  "bd_list_tbody soup =
     (case find_node (\<lambda>y. named ''div'' y \<and> has_class ''BD_list'' y) soup of
        None \<Rightarrow> None
      | Some bd_list \<Rightarrow>
          (case find_node (named ''table'') bd_list of
             None \<Rightarrow> None
           | Some table \<Rightarrow> find_node (named ''tbody'') table))"

text \<open>
  Method 4: the \<open>for ... else\<close> over all tables. The loop breaks at the first table
  whose body has a row and whose first row has a \<open>td\<close>; when it ends without a break,
  \<open>tbody\<close> is \<open>None\<close>.
\<close>

fun any_table_tbody :: "node list \<Rightarrow> node option" where
  "any_table_tbody [] = None"
| "any_table_tbody (table # tables) =
     (case find_node (named ''tbody'') table of
        None \<Rightarrow> any_table_tbody tables
      | Some tbody \<Rightarrow>
          (case find_all (named ''tr'') tbody of
             [] \<Rightarrow> any_table_tbody tables
           | first_row # _ \<Rightarrow>
               if find_all (named ''td'') first_row \<noteq> [] then Some tbody
               else any_table_tbody tables))"

definition find_tbody :: "node \<Rightarrow> node option" where
  "find_tbody soup =
     (case select_one_tbody soup of
        Some tbody \<Rightarrow> Some tbody
      | None \<Rightarrow>
          (case stepwise_tbody soup of
             Some tbody \<Rightarrow> Some tbody
           | None \<Rightarrow>
               (case bd_list_tbody soup of
                  Some tbody \<Rightarrow> Some tbody
                | None \<Rightarrow> any_table_tbody (find_all (named ''table'') soup))))"

subsection \<open>One row\<close>

text \<open>
  The title and the link of a row, lines 160 to 197. \<open>urljoin\<close> is the only call of
  the row that raises; \<open>Inl\<close> is its exception.
\<close>

definition resolve :: "env \<Rightarrow> pystr \<Rightarrow> pystr \<Rightarrow> exc + pystr" where
  "resolve E page link =
     (if link \<noteq> [] \<and> \<not> startswith link (py ''http'') then urljoin E page link else Inr link)"

definition script_link :: "node \<Rightarrow> pystr \<Rightarrow> pystr" where
  "script_link title_link link =
     (if startswith link (py ''javascript:'') then
        (let onclick = get title_link ''onclick'' in
         if onclick \<noteq> [] then
           (case re_search_quoted_digits onclick of
              Some ntt_sn \<Rightarrow> detail_url_template @ ntt_sn
            | None \<Rightarrow> [])
         else link)
      else link)"

definition title_and_link ::
  "env \<Rightarrow> pystr \<Rightarrow> node \<Rightarrow> node list \<Rightarrow> exc + pystr \<times> pystr" where
  "title_and_link E page row cells =
     (case find_node (\<lambda>y. named ''td'' y \<and> has_class ''ta_l'' y) row of
        Some title_cell \<Rightarrow>
          (case find_node (named ''a'') title_cell of
             Some title_link \<Rightarrow>
               (case resolve E page (script_link title_link (get title_link ''href'')) of
                  Inl e \<Rightarrow> Inl e
                | Inr link \<Rightarrow> Inr (get_text title_link, link))
           | None \<Rightarrow> Inr (get_text title_cell, []))
      | None \<Rightarrow>
          (case find_node (named ''a'') (cells ! 1) of
             Some title_link \<Rightarrow>
               (case resolve E page (get title_link ''href'') of
                  Inl e \<Rightarrow> Inl e
                | Inr link \<Rightarrow> Inr (get_text title_link, link))
           | None \<Rightarrow> Inr (get_text (cells ! 1), [])))"

text \<open>
  The date of a row, lines 199 to 222: the text found and the calls of \<open>logging\<close>.
  \<open>scan_cells\<close> is the loop over \<open>enumerate(cells)\<close>, which stops at the first cell
  with a match.
\<close>

fun scan_cells :: "nat \<Rightarrow> node list \<Rightarrow> (nat \<times> pystr) option" where
  "scan_cells idx [] = None"
| "scan_cells idx (cell # cells) =
     (case re_search_date (get_text cell) of
        Some date_text \<Rightarrow> Some (idx, date_text)
      | None \<Rightarrow> scan_cells (Suc idx) cells)"

definition find_date :: "node list \<Rightarrow> pystr \<times> log_call list" where
  "find_date cells =
     (let date_text =
            (if length cells > 3 then
               (case re_search_date (get_text (cells ! 3)) of
                  Some d \<Rightarrow> d
                | None \<Rightarrow> [])
             else [])
      in if date_text \<noteq> [] then (date_text, [])
         else (case scan_cells 0 cells of
                 Some (idx, d) \<Rightarrow> (d, [Log_date_at idx d])
               | None \<Rightarrow> ([], [Log_no_date (map get_text cells)])))"

text \<open>Lines 231 to 238.\<close>

definition format_date :: "pystr \<Rightarrow> pystr" where
  "format_date date_text =
     (if re_match_date date_text then replace_dots date_text else date_text)"

text \<open>
  The body of the \<open>try\<close> of a row, lines 152 to 250: an exception, or \<open>None\<close> for
  \<open>continue\<close>, or the record appended; with the calls of \<open>logging\<close>. The cells are
  at least four here, so \<open>cells[0]\<close>, \<open>cells[1]\<close> and \<open>cells[3]\<close> exist.
\<close>

definition extract_row ::
  "env \<Rightarrow> pystr \<Rightarrow> node \<Rightarrow> node list \<Rightarrow> (exc + letter option) \<times> log_call list" where
  "extract_row E page row cells =
     (let num = get_text (cells ! 0) in
      if num = marker_notice \<or> num = marker_joint_notice then (Inr None, [])
      else
        (case title_and_link E page row cells of
           Inl e \<Rightarrow> (Inl e, [])
         | Inr (ttl, link) \<Rightarrow>
             (let (date_text, lg) = find_date cells;
                  attachment = list_ex (\<lambda>cell. find_node (named ''img'') cell \<noteq> None) cells
              in (Inr (Some \<lparr>number = num, title = ttl, author = [],
                             date = format_date date_text, views = py ''0'', url = link,
                             has_attachment = attachment\<rparr>),
                  lg))))"

text \<open>
  The body of the loop, lines 141 to 254: the record the row appends, if any, and the
  calls of \<open>logging\<close>. An exception of the row is logged and the row is left out.
\<close>

definition process_row :: "env \<Rightarrow> pystr \<Rightarrow> node \<Rightarrow> letter option \<times> log_call list" where
  "process_row E page row =
     (if find_node (named ''th'') row \<noteq> None then (None, [])
      else
        (let cells = find_all (named ''td'') row in
         if length cells < 4 then (None, [])
         else
           (case extract_row E page row cells of
              (Inl e, lg) \<Rightarrow> (None, lg @ [Log_row_error e])
            | (Inr r, lg) \<Rightarrow> (r, lg))))"

fun rows_loop ::
  "env \<Rightarrow> pystr \<Rightarrow> node list \<Rightarrow> letter list \<Rightarrow> log_call list \<Rightarrow> letter list \<times> log_call list"
  where
  "rows_loop E page [] acc lg = (acc, lg)"
| "rows_loop E page (row # rows) acc lg =
     (case process_row E page row of
        (None, l) \<Rightarrow> rows_loop E page rows acc (lg @ l)
      | (Some r, l) \<Rightarrow> rows_loop E page rows (acc @ [r]) (lg @ l))"

subsection \<open>The function\<close>

text \<open>Lines 43 to 49; \<open>not site_name\<close> holds for \<open>None\<close> and for the empty string.\<close>

definition resolve_site_name :: "pystr \<Rightarrow> pystr option \<Rightarrow> pystr" where
  "resolve_site_name page site_name =
     (if site_name = None \<or> site_name = Some [] then
        (case re_search_host page of Some h \<Rightarrow> h | None \<Rightarrow> py ''unknown_site'')
      else the site_name)"

text \<open>The envelope of the three \<open>return\<close>s with an error.\<close>

definition failure :: "env \<Rightarrow> pystr \<Rightarrow> pystr \<Rightarrow> pystr \<Rightarrow> envelope" where
  "failure E site page msg =
     \<lparr>letters = [],
      meta = \<lparr>total_count = 0, last_updated = today E, source = site, page_url = page,
              error = Some msg\<rparr>\<rparr>"

text \<open>
  \<open>crawl_school_letters(url, site_name)\<close>: the envelope returned, or the exception
  that leaves the call, and the calls of \<open>logging\<close>. The first \<open>try\<close>, lines 58 to
  73, catches a \<open>requests.RequestException\<close> and nothing else, so another exception of
  the request leaves the function. The second one, lines 76 to 269, catches every
  exception of the parser, and the rows catch their own.
\<close>

definition crawl_school_letters ::
  "env \<Rightarrow> pystr \<Rightarrow> pystr option \<Rightarrow> (exc + envelope) \<times> log_call list" where
  "crawl_school_letters E page site_name =
     (let site = resolve_site_name page site_name in
      case http_get E page of
        Inl (RequestException msg) \<Rightarrow>
          (Inr (failure E site page msg),
           [Log_start site, Log_request_error (RequestException msg)])
      | Inl (Exception msg) \<Rightarrow> (Inl (Exception msg), [Log_start site])
      | Inr text \<Rightarrow>
          (case html_parse E text of
             Inl e \<Rightarrow>
               (Inr (failure E site page (parse_error_prefix @ exc_str e)),
                [Log_start site, Log_parse_error e])
           | Inr soup \<Rightarrow>
               (case find_tbody soup of
                  None \<Rightarrow>
                    (Inr (failure E site page table_not_found_message),
                     [Log_start site, Log_table_not_found])
                | Some tbody \<Rightarrow>
                    (let (ls, lg) =
                           rows_loop E page (find_all (named ''tr'') tbody) [] [Log_start site]
                     in (Inr \<lparr>letters = ls,
                              meta = \<lparr>total_count = int (length ls), last_updated = today E,
                                      source = site, page_url = page, error = None\<rparr>\<rparr>,
                         lg @ [Log_done (length ls), Log_done (length ls)])))))"

subsection \<open>Notions of the specification\<close>



text \<open>
  The link of a row before it is resolved against the page, \<open>None\<close> when the title
  cell has no anchor: the \<open>href\<close> of the anchor, after the treatment of script links
  where the title cell was found by its class.
\<close>

definition row_link :: "node \<Rightarrow> pystr option" where
  "row_link row =
     (case find_node (\<lambda>y. named ''td'' y \<and> has_class ''ta_l'' y) row of
        Some title_cell \<Rightarrow>
          (case find_node (named ''a'') title_cell of
             Some title_link \<Rightarrow> Some (script_link title_link (get title_link ''href''))
           | None \<Rightarrow> None)
      | None \<Rightarrow>
          (case find_node (named ''a'') (find_all (named ''td'') row ! 1) of
             Some title_link \<Rightarrow> Some (get title_link ''href'')
           | None \<Rightarrow> None))"

text \<open>
  An absolute link in the sense of RFC 3986: it starts with a scheme, a letter followed
  by letters, digits, \<open>+\<close>, \<open>-\<close> or \<open>.\<close>, and a colon.
\<close>

definition is_alpha :: "int \<Rightarrow> bool" where
  "is_alpha c \<longleftrightarrow> c \<in> set (py ''abcdefghijklmnopqrstuvwxyzABCDEFGHIJKLMNOPQRSTUVWXYZ'')"

definition scheme_char :: "int \<Rightarrow> bool" where
  "scheme_char c \<longleftrightarrow> is_alpha c \<or> c \<in> set (py ''0123456789+-.'')"

definition has_scheme :: "pystr \<Rightarrow> bool" where
  "has_scheme s =
     (case s of
        [] \<Rightarrow> False
      | c # r \<Rightarrow>
          is_alpha c \<and>
          (case dropWhile scheme_char r of [] \<Rightarrow> False | d # _ \<Rightarrow> d = of_char (CHR '':'')))"

text \<open>
  The quoted runs of digits that a text contains, from left to right: at each
  position with a quote, the digits that follow it, when there is one at least and a
  quote ends them.
\<close>

definition quoted_run_at :: "pystr \<Rightarrow> pystr list" where
  "quoted_run_at s =
     (case s of
        [] \<Rightarrow> []
      | q # r \<Rightarrow>
          if is_quote q \<and> takeWhile is_digit r \<noteq> [] \<and>
             (case dropWhile is_digit r of [] \<Rightarrow> False | q' # _ \<Rightarrow> is_quote q')
          then [takeWhile is_digit r] else [])"


subsection \<open>A sample page and sample collaborators\<close>

text \<open>
  \<open>sample_urljoin\<close> stands for \<open>urllib.parse.urljoin\<close> on the links of the sample
  rows, where it gives what the library gives: a \<open>ValueError\<close> for a link whose host
  opens a bracket and does not close it, the link itself when it has a scheme, the
  origin of the base and the link when the link is a path from the root, and the
  directory of the base and the link otherwise.
\<close>

definition origin :: "pystr \<Rightarrow> pystr" where
  "origin base =
     takeWhile (\<lambda>c. c \<noteq> of_char (CHR '':'')) base @ py ''://'' @
     takeWhile not_slash (drop 3 (dropWhile (\<lambda>c. c \<noteq> of_char (CHR '':'')) base))"

definition directory :: "pystr \<Rightarrow> pystr" where
  "directory base = rev (dropWhile not_slash (rev base))"

definition sample_urljoin :: "pystr \<Rightarrow> pystr \<Rightarrow> exc + pystr" where
  "sample_urljoin base link =
     (if startswith link (py ''//['') \<and> of_char (CHR '']'') \<notin> set link
      then Inl (Exception (py ''Invalid IPv6 URL''))
      else if has_scheme link then Inr link
      else if startswith link (py ''/'') then Inr (origin base @ link)
      else Inr (directory base @ link))"

text \<open>
  The sample request knows four addresses: the page, a page whose text the parser
  rejects, an address of a scheme that \<open>requests\<close> does not serve, for which it raises
  \<open>InvalidSchema\<close>, a \<open>RequestException\<close>, and an address with an empty label in its
  host, for which the \<open>LocationParseError\<close> of \<open>urllib3\<close>, which is not one, comes
  out of \<open>requests.get\<close>. At any other address the connection is refused. The
  sample parser rejects the marked section with an unknown keyword, as \<open>html.parser\<close>
  does, and gives the sample tree for any other text.
\<close>

definition sample_page :: pystr where
  "sample_page = py ''https://www.school.example/board/list''"

definition broken_page :: pystr where
  "broken_page = py ''https://www.school.example/board/broken''"

definition unserved_page :: pystr where
  "unserved_page = py ''ftp://x''"

definition empty_label_page :: pystr where
  "empty_label_page = py ''http://a..b/''"

definition rejected_markup :: pystr where
  "rejected_markup = py ''<![x[y]]>''"

definition invalid_schema :: exc where
  "invalid_schema =
     RequestException
       (py ''No connection adapters were found for '' @ [0x27] @ unserved_page @ [0x27])"

definition location_parse_error :: exc where
  "location_parse_error =
     Exception
       (py ''Failed to parse: '' @ [0x27] @ py ''a..b'' @ [0x27] @
        py '', label empty or too long'')"

definition parser_rejected_markup :: exc where
  "parser_rejected_markup =
     Exception
       (py ''AssertionError: unknown status keyword '' @ [0x27] @ py ''x'' @ [0x27] @
        py '' in marked section'')"

definition sample_env :: "node \<Rightarrow> env" where
  "sample_env soup =
     \<lparr>http_get = (\<lambda>u. if u = sample_page then Inr (py ''<html>'')
                      else if u = broken_page then Inr rejected_markup
                      else if u = empty_label_page then Inl location_parse_error
                      else if u = unserved_page then Inl invalid_schema
                      else Inl (RequestException (py ''Connection refused''))),
      html_parse = (\<lambda>t. if t = rejected_markup then Inl parser_rejected_markup
                        else Inr soup),
      urljoin = sample_urljoin,
      today = py ''2024-03-20''\<rparr>"

definition td :: "node list \<Rightarrow> node" where
  "td cs = Tag ''td'' [] [] cs"

definition header_row :: node where
  "header_row =
     Tag ''tr'' [] []
       [Tag ''th'' [] [] [NavigableString (py ''No'')],
        Tag ''th'' [] [] [NavigableString (py ''Title'')]]"

definition pinned_row :: node where
  "pinned_row =
     Tag ''tr'' [] []
       [td [NavigableString (py '' '' @ marker_notice @ py '' '')],
        td [NavigableString (py ''Rules'')],
        td [NavigableString (py ''office'')], td [NavigableString (py ''2024.01.01'')]]"

definition data_cells :: "node list" where
  "data_cells =
     [td [NavigableString (py ''1'')],
      td [Tag ''a'' [(''href'', py ''/view?id=9'')] [] [NavigableString (py ''Notice A'')]],
      td [NavigableString (py ''author'')], td [NavigableString (py ''2024.01.10'')]]"

definition data_row :: node where
  "data_row = Tag ''tr'' [] [] data_cells"

definition short_row :: node where
  "short_row =
     Tag ''tr'' [] []
       [td [NavigableString (py ''2'')], td [NavigableString (py ''Notice S'')],
        td [NavigableString (py ''2024.02.02'')]]"

definition sample_onclick :: pystr where
  "sample_onclick = py ''fnView('' @ [0x27] @ py ''12345'' @ [0x27] @ py '');''"

definition script_anchor :: "pystr \<Rightarrow> node list \<Rightarrow> node" where
  "script_anchor onclick cs =
     Tag ''a'' [(''href'', py ''javascript:void(0)''), (''onclick'', onclick)] [] cs"

text \<open>A row of the template of the site: the title cell has the class, the anchor
  is a script link, and a cell holds the icon of an attachment.\<close>

definition script_row :: node where
  "script_row =
     Tag ''tr'' [] []
       [td [NavigableString (py ''3'')],
        Tag ''td'' [] [''ta_l'']
          [script_anchor sample_onclick [NavigableString (py '' Notice B '')]],
        td [Tag ''img'' [(''src'', py ''/file.png'')] [] []],
        td [NavigableString (py ''posted 2024.03.15 by office'')]]"



text \<open>A row whose link makes \<open>urljoin\<close> raise, a row with a relative link that
  starts with \<open>http\<close>, a row with an absolute link, and a row without a date or an
  anchor.\<close>

definition raising_row :: node where
  "raising_row =
     Tag ''tr'' [] []
       [td [NavigableString (py ''6'')],
        td [Tag ''a'' [(''href'', py ''//[bad'')] [] [NavigableString (py ''Notice E'')]],
        td [NavigableString (py ''office'')], td [NavigableString (py ''2024.03.18'')]]"

definition http_guide_row :: node where
  "http_guide_row =
     Tag ''tr'' [] []
       [td [NavigableString (py ''7'')],
        td [Tag ''a'' [(''href'', py ''http-guide.html'')] []
              [NavigableString (py ''Notice F'')]],
        td [NavigableString (py ''office'')], td [NavigableString (py ''2024.03.19'')]]"

definition absolute_row :: node where
  "absolute_row =
     Tag ''tr'' [] []
       [td [NavigableString (py ''8'')],
        td [Tag ''a'' [(''href'', py ''https://other.example/n/8'')] []
              [NavigableString (py ''Notice G'')]],
        td [NavigableString (py ''2024.03.20'')], td [NavigableString (py ''-'')]]"

definition undated_row :: node where
  "undated_row =
     Tag ''tr'' [] []
       [td [NavigableString (py ''9'')], td [NavigableString (py ''Notice H'')],
        td [NavigableString (py ''office'')], td [NavigableString (py ''soon'')]]"

text \<open>A script link whose handler holds no quoted number.\<close>

definition tokenless_script_row :: node where
  "tokenless_script_row =
     Tag ''tr'' [] []
       [td [NavigableString (py ''10'')],
        Tag ''td'' [] [''ta_l'']
          [script_anchor (py ''fnView(this);'') [NavigableString (py ''Notice I'')]],
        td [NavigableString (py ''office'')], td [NavigableString (py ''2024.03.21'')]]"

text \<open>
  Rows with characters that are not ASCII: a pinned row whose marker follows a
  no-break space, a row whose date is written with full-width digits, a row whose
  date is in three texts, the second one after a no-break space, and a script link
  whose handler holds a number in full-width digits.
\<close>

definition fullwidth_date :: pystr where
  "fullwidth_date = [0xFF12, 0xFF10, 0xFF12, 0xFF14, 0x2E, 0xFF10, 0xFF13, 0x2E, 0xFF11, 0xFF15]"

definition fullwidth_number :: pystr where
  "fullwidth_number = [0xFF11, 0xFF12, 0xFF13]"

definition fullwidth_onclick :: pystr where
  "fullwidth_onclick = py ''fnView('' @ [0x27] @ fullwidth_number @ [0x27] @ py '')''"

definition nbsp_pinned_row :: node where
  "nbsp_pinned_row =
     Tag ''tr'' [] []
       [td [NavigableString (0xA0 # marker_notice)], td [NavigableString (py ''Rules'')],
        td [NavigableString (py ''office'')], td [NavigableString (py ''2024.01.01'')]]"

definition fullwidth_row :: node where
  "fullwidth_row =
     Tag ''tr'' [] []
       [td [NavigableString (py ''11'')], td [NavigableString (py ''Notice J'')],
        td [NavigableString (py ''office'')], td [NavigableString fullwidth_date]]"

definition seam_row :: node where
  "seam_row =
     Tag ''tr'' [] []
       [td [NavigableString (py ''12'')], td [NavigableString (py ''Notice K'')],
        td [NavigableString (py ''office'')],
        td [NavigableString (py ''2024.''),
            Tag ''b'' [] [] [NavigableString (0xA0 # py ''03'')],
            NavigableString (py ''.15'')]]"

definition fullwidth_script_row :: node where
  "fullwidth_script_row =
     Tag ''tr'' [] []
       [td [NavigableString (py ''13'')],
        Tag ''td'' [] [''ta_l'']
          [script_anchor fullwidth_onclick [NavigableString (py ''Notice L'')]],
        td [NavigableString (py ''office'')], td [NavigableString (py ''2024.03.22'')]]"

definition page_of :: "node list \<Rightarrow> node" where
  "page_of rows =
     Tag ''[document]'' [] []
       [Tag ''html'' [] []
          [Tag ''body'' [] []
             [Tag ''div'' [(''id'', py ''subContent'')] []
                [Tag ''div'' [] []
                   [Tag ''div'' [] [''BD_list'']
                      [Tag ''table'' [] [] [Tag ''tbody'' [] [] rows]]]]]]]"

definition sample_rows :: "node list" where
  "sample_rows =
     [header_row, pinned_row, data_row, short_row, script_row, raising_row, absolute_row,
      undated_row]"

definition unicode_rows :: "node list" where
  "unicode_rows = [nbsp_pinned_row, fullwidth_row, seam_row, fullwidth_script_row]"

text \<open>The records of the sample rows.\<close>

definition letter_A :: letter where
  "letter_A = \<lparr>number = py ''1'', title = py ''Notice A'', author = [],
               date = py ''2024-01-10'', views = py ''0'',
               url = py ''https://www.school.example/view?id=9'', has_attachment = False\<rparr>"

definition letter_B :: letter where
  "letter_B = \<lparr>number = py ''3'', title = py ''Notice B'', author = [],
               date = py ''2024-03-15'', views = py ''0'',
               url = py ''https://www.school.example'' @ detail_url_template @ py ''12345'',
               has_attachment = True\<rparr>"

definition letter_G :: letter where
  "letter_G = \<lparr>number = py ''8'', title = py ''Notice G'', author = [],
               date = py ''2024-03-20'', views = py ''0'',
               url = py ''https://other.example/n/8'', has_attachment = False\<rparr>"

definition letter_H :: letter where
  "letter_H = \<lparr>number = py ''9'', title = py ''Notice H'', author = [], date = [],
               views = py ''0'', url = [], has_attachment = False\<rparr>"

definition letter_I :: letter where
  "letter_I = \<lparr>number = py ''10'', title = py ''Notice I'', author = [],
               date = py ''2024-03-21'', views = py ''0'', url = [], has_attachment = False\<rparr>"




section \<open>Properties\<close>

subsection \<open>The date pattern\<close>







lemma quotes_not_digits: "\<not> is_digit 39" "\<not> is_digit 34"
  by code_simp+





subsection \<open>The handler pattern\<close>




lemma quote_not_digit: "is_quote q \<Longrightarrow> \<not> is_digit q"
  using quotes_not_digits by (auto simp: is_quote_def)

text \<open>A quoted run of digits at the start of a text, in words: a quote, one digit
  or more, all of them digits, and a quote.\<close>

lemma quoted_run_at_iff:
  "ds \<in> set (quoted_run_at s) \<longleftrightarrow>
     (\<exists>q1 q2 post. s = q1 # ds @ q2 # post \<and> is_quote q1 \<and> is_quote q2 \<and> ds \<noteq> [] \<and>
        (\<forall>d \<in> set ds. is_digit d))"
proof
  assume a: "ds \<in> set (quoted_run_at s)"
  then obtain q r where s: "s = q # r"
    by (cases s) (auto simp: quoted_run_at_def)
  from a have t: "is_quote q \<and> takeWhile is_digit r \<noteq> [] \<and>
         (case dropWhile is_digit r of [] \<Rightarrow> False | q' # _ \<Rightarrow> is_quote q')"
    and ds: "ds = takeWhile is_digit r"
    unfolding s quoted_run_at_def by (simp_all split: if_splits)
  from t obtain q' post where d: "dropWhile is_digit r = q' # post" and q': "is_quote q'"
    by (cases "dropWhile is_digit r") simp_all
  have "takeWhile is_digit r @ dropWhile is_digit r = r"
    by (rule takeWhile_dropWhile_id)
  then have r: "r = ds @ q' # post"
    unfolding d ds by (rule sym)
  have dig: "\<forall>d \<in> set ds. is_digit d"
    unfolding ds by (blast dest: set_takeWhileD)
  have ne: "ds \<noteq> []"
    unfolding ds using t by (rule conjunct1 [OF conjunct2])
  have "s = q # ds @ q' # post"
    unfolding s by (subst r) (rule refl)
  moreover have "is_quote q" using t by (rule conjunct1)
  ultimately have "s = q # ds @ q' # post \<and> is_quote q \<and> is_quote q' \<and> ds \<noteq> [] \<and>
        (\<forall>d \<in> set ds. is_digit d)"
    using q' ne dig by (intro conjI)
  then show "\<exists>q1 q2 post. s = q1 # ds @ q2 # post \<and> is_quote q1 \<and> is_quote q2 \<and> ds \<noteq> [] \<and>
        (\<forall>d \<in> set ds. is_digit d)"
    by (intro exI)
next
  assume "\<exists>q1 q2 post. s = q1 # ds @ q2 # post \<and> is_quote q1 \<and> is_quote q2 \<and> ds \<noteq> [] \<and>
        (\<forall>d \<in> set ds. is_digit d)"
  then obtain q1 q2 post where s: "s = q1 # ds @ q2 # post" and q: "is_quote q1" "is_quote q2"
    and ds: "ds \<noteq> []" "\<forall>d \<in> set ds. is_digit d"
    by blast
  from q(2) have nd: "\<not> is_digit q2" by (rule quote_not_digit)
  have tw: "takeWhile is_digit (ds @ q2 # post) = ds"
    using ds(2) nd by (simp add: takeWhile_append2)
  have dw: "dropWhile is_digit (ds @ q2 # post) = q2 # post"
    using ds(2) nd by (simp add: dropWhile_append2)
  show "ds \<in> set (quoted_run_at s)"
    using q ds(1) by (simp add: s quoted_run_at_def tw dw)
qed

subsection \<open>The loop and the five ways out of the function\<close>

text \<open>The loop appends the records of the rows in their order, and nothing else.\<close>

lemma rows_loop_eq:
  "rows_loop E page rows acc lg =
     (acc @ List.map_filter (\<lambda>row. fst (process_row E page row)) rows,
      lg @ concat (map (\<lambda>row. snd (process_row E page row)) rows))"
proof (induction rows arbitrary: acc lg)
  case Nil
  show ?case by (simp add: List.map_filter_simps)
next
  case (Cons row rows)
  show ?case
  proof (cases "process_row E page row")
    case (Pair r l)
    then show ?thesis
      by (cases r) (simp_all add: Cons.IH List.map_filter_simps)
  qed
qed

lemma crawl_fetch_failure:
  "http_get E page = Inl (RequestException msg) \<Longrightarrow>
   fst (crawl_school_letters E page sn) =
     Inr (failure E (resolve_site_name page sn) page msg)"
  by (simp add: crawl_school_letters_def Let_def)

lemma crawl_fetch_escape:
  "http_get E page = Inl (Exception msg) \<Longrightarrow>
   fst (crawl_school_letters E page sn) = Inl (Exception msg)"
  by (simp add: crawl_school_letters_def Let_def)

lemma crawl_parse_failure:
  "http_get E page = Inr body \<Longrightarrow> html_parse E body = Inl e \<Longrightarrow>
   fst (crawl_school_letters E page sn) =
     Inr (failure E (resolve_site_name page sn) page (parse_error_prefix @ exc_str e))"
  by (simp add: crawl_school_letters_def Let_def)

lemma crawl_table_not_found:
  "http_get E page = Inr body \<Longrightarrow> html_parse E body = Inr soup \<Longrightarrow> find_tbody soup = None \<Longrightarrow>
   fst (crawl_school_letters E page sn) =
     Inr (failure E (resolve_site_name page sn) page table_not_found_message)"
  by (simp add: crawl_school_letters_def Let_def)

lemma crawl_success:
  "http_get E page = Inr body \<Longrightarrow> html_parse E body = Inr soup \<Longrightarrow>
   find_tbody soup = Some tbody \<Longrightarrow>
   fst (crawl_school_letters E page sn) =
     Inr \<lparr>letters = List.map_filter (\<lambda>row. fst (process_row E page row))
                      (find_all (named ''tr'') tbody),
          meta = \<lparr>total_count =
                    int (length (List.map_filter (\<lambda>row. fst (process_row E page row))
                                   (find_all (named ''tr'') tbody))),
                  last_updated = today E, source = resolve_site_name page sn, page_url = page,
                  error = None\<rparr>\<rparr>"
  by (simp add: crawl_school_letters_def rows_loop_eq Let_def)

text \<open>The calls of \<open>logging\<close> of a call that finds the table body: the start, the
  calls of the rows in their order, and the end, which the source logs twice.\<close>

lemma crawl_log:
  "http_get E page = Inr body \<Longrightarrow> html_parse E body = Inr soup \<Longrightarrow>
   find_tbody soup = Some tbody \<Longrightarrow>
   snd (crawl_school_letters E page sn) =
     Log_start (resolve_site_name page sn) #
     concat (map (\<lambda>row. snd (process_row E page row)) (find_all (named ''tr'') tbody)) @
     [Log_done (length (List.map_filter (\<lambda>row. fst (process_row E page row))
                          (find_all (named ''tr'') tbody))),
      Log_done (length (List.map_filter (\<lambda>row. fst (process_row E page row))
                          (find_all (named ''tr'') tbody)))]"
  by (simp add: crawl_school_letters_def rows_loop_eq Let_def)

lemma crawl_cases:
  obtains (fetch) msg where "http_get E page = Inl (RequestException msg)"
  | (escape) msg where "http_get E page = Inl (Exception msg)"
  | (parse) body e where "http_get E page = Inr body" "html_parse E body = Inl e"
  | (no_table) body soup where "http_get E page = Inr body" "html_parse E body = Inr soup"
      "find_tbody soup = None"
  | (located) body soup tbody where "http_get E page = Inr body" "html_parse E body = Inr soup"
      "find_tbody soup = Some tbody"
proof (cases "http_get E page")
  case (Inl e)
  then show ?thesis by (cases e) (auto intro: fetch escape)
next
  case (Inr body)
  note t = this
  show ?thesis
  proof (cases "html_parse E body")
    case (Inl e)
    with t show ?thesis by (rule parse)
  next
    case (Inr soup)
    with t show ?thesis
      by (cases "find_tbody soup") (auto intro: no_table located)
  qed
qed

subsection \<open>What an appended record says about its row\<close>

lemma process_row_Some:
  assumes "process_row E page row = (Some r, lg)"
  shows "find_node (named ''th'') row = None"
    and "4 \<le> length (find_all (named ''td'') row)"
    and "extract_row E page row (find_all (named ''td'') row) = (Inr (Some r), lg)"
  using assms
  by (auto simp: process_row_def Let_def split: if_splits prod.splits sum.splits)

lemma extract_row_Some:
  assumes "extract_row E page row cells = (Inr (Some r), lg)"
  shows "number r = get_text (cells ! 0)"
    and "number r \<noteq> marker_notice" and "number r \<noteq> marker_joint_notice"
    and "\<exists>ttl. title_and_link E page row cells = Inr (ttl, url r) \<and> title r = ttl"
    and "date r = format_date (fst (find_date cells))"
    and "lg = snd (find_date cells)"
    and "author r = []" and "views r = py ''0''"
    and "has_attachment r = list_ex (\<lambda>cell. find_node (named ''img'') cell \<noteq> None) cells"
  using assms
  by (auto simp: extract_row_def Let_def split: if_splits prod.splits sum.splits)

lemma in_map_filter:
  "r \<in> set (List.map_filter f xs) \<longleftrightarrow> (\<exists>x \<in> set xs. f x = Some r)"
  by (induction xs) (auto split: option.splits)

lemma process_row_header:
  "find_node (named ''th'') row \<noteq> None \<Longrightarrow> process_row E page row = (None, [])"
  by (simp add: process_row_def)

lemma process_row_short:
  "length (find_all (named ''td'') row) < 4 \<Longrightarrow> process_row E page row = (None, [])"
  by (simp add: process_row_def)

lemma process_row_marker:
  assumes "find_all (named ''td'') row = c # cs"
    and "get_text c = marker_notice \<or> get_text c = marker_joint_notice"
  shows "process_row E page row = (None, [])"
  using assms by (auto simp: process_row_def extract_row_def Let_def)

lemma process_row_raising:
  assumes "find_node (named ''th'') row = None" and "4 \<le> length (find_all (named ''td'') row)"
    and "extract_row E page row (find_all (named ''td'') row) = (Inl e, lg)"
  shows "process_row E page row = (None, lg @ [Log_row_error e])"
  using assms by (simp add: process_row_def Let_def)

text \<open>Every letter of a returned envelope is the record of a row of the table body.\<close>

lemma letters_from_rows:
  assumes "fst (crawl_school_letters E page sn) = Inr X" and "r \<in> set (letters X)"
  shows "\<exists>body soup tbody. http_get E page = Inr body \<and> html_parse E body = Inr soup \<and>
           find_tbody soup = Some tbody \<and>
           (\<exists>row \<in> set (find_all (named ''tr'') tbody). fst (process_row E page row) = Some r)"
proof (cases E page rule: crawl_cases)
  case (fetch msg)
  with assms show ?thesis by (auto simp: crawl_fetch_failure failure_def)
next
  case (escape msg)
  with assms show ?thesis by (simp add: crawl_fetch_escape)
next
  case (parse body e)
  with assms show ?thesis by (auto simp: crawl_parse_failure failure_def)
next
  case (no_table body soup)
  with assms show ?thesis by (auto simp: crawl_table_not_found failure_def)
next
  case (located body soup tbody)
  with assms have "r \<in> set (List.map_filter (\<lambda>row. fst (process_row E page row))
                              (find_all (named ''tr'') tbody))"
    by (auto simp: crawl_success)
  then have "\<exists>row \<in> set (find_all (named ''tr'') tbody). fst (process_row E page row) = Some r"
    by (simp add: in_map_filter)
  with located show ?thesis by blast
qed

lemma fst_process_row:
  "fst (process_row E page row) = Some r \<Longrightarrow>
   process_row E page row = (Some r, snd (process_row E page row))"
  by (metis prod.collapse)

subsection \<open>The date of a row\<close>







lemma find_node_class:
  "find_node (\<lambda>y. named n y \<and> P y) x =
     (case filter P (find_all (named n) x) of [] \<Rightarrow> None | y # _ \<Rightarrow> Some y)"
  by (simp add: find_node_def find_all_def)

lemma title_and_link_row_link:
  assumes "title_and_link E page row (find_all (named ''td'') row) = Inr (ttl, l)"
    and "row_link row = Some link"
  shows "resolve E page link = Inr l"
  using assms
  by (auto simp: title_and_link_def row_link_def split: option.splits sum.splits)

subsection \<open>The sample page\<close>

lemma sample_tbody: "find_tbody (page_of rows) = Some (Tag ''tbody'' [] [] rows)"
  by (simp add: find_tbody_def select_one_tbody_def page_of_def named_def has_class_def
                has_id_def)

lemma sample_tr:
  "find_all (named ''tr'') (Tag ''tbody'' [] [] sample_rows) = sample_rows"
  "find_all (named ''tr'') (Tag ''tbody'' [] [] unicode_rows) = unicode_rows"
  by code_simp+

lemma sample_get: "http_get (sample_env soup) sample_page = Inr (py ''<html>'')"
  by (simp add: sample_env_def)

lemma sample_parse: "html_parse (sample_env soup) (py ''<html>'') = Inr soup"
  by code_simp

lemma sample_get_unserved: "http_get (sample_env soup) unserved_page = Inl invalid_schema"
  by code_simp

lemma sample_get_empty_label:
  "http_get (sample_env soup) empty_label_page = Inl location_parse_error"
  by code_simp

lemma sample_get_broken: "http_get (sample_env soup) broken_page = Inr rejected_markup"
  by code_simp

lemma sample_parse_broken:
  "html_parse (sample_env soup) rejected_markup = Inl parser_rejected_markup"
  by (simp add: sample_env_def)

lemma empty_page_no_tbody: "find_tbody (Tag ''[document]'' [] [] []) = None"
  by code_simp

lemma sample_located:
  "http_get (sample_env (page_of rows)) sample_page = Inr (py ''<html>'') \<and>
   html_parse (sample_env (page_of rows)) (py ''<html>'') = Inr (page_of rows) \<and>
   find_tbody (page_of rows) = Some (Tag ''tbody'' [] [] rows)"
  by (simp add: sample_get sample_parse sample_tbody)

lemma sample_process_rows:
  "process_row (sample_env soup) sample_page header_row = (None, [])"
  "process_row (sample_env soup) sample_page pinned_row = (None, [])"
  "process_row (sample_env soup) sample_page data_row = (Some letter_A, [])"
  "process_row (sample_env soup) sample_page short_row = (None, [])"
  "process_row (sample_env soup) sample_page script_row = (Some letter_B, [])"
  "process_row (sample_env soup) sample_page raising_row =
     (None, [Log_row_error (Exception (py ''Invalid IPv6 URL''))])"
  "process_row (sample_env soup) sample_page absolute_row =
     (Some letter_G, [Log_date_at 2 (py ''2024.03.20'')])"
  "process_row (sample_env soup) sample_page undated_row =
     (Some letter_H, [Log_no_date [py ''9'', py ''Notice H'', py ''office'', py ''soon'']])"
  "process_row (sample_env soup) sample_page tokenless_script_row = (Some letter_I, [])"
  by code_simp+


lemma sample_letters:
  "fst (crawl_school_letters (sample_env (page_of sample_rows)) sample_page None) =
     Inr \<lparr>letters = [letter_A, letter_B, letter_G, letter_H],
          meta = \<lparr>total_count = 4, last_updated = py ''2024-03-20'',
                  source = py ''school.example'', page_url = sample_page, error = None\<rparr>\<rparr>"
proof -
  have "List.map_filter (\<lambda>row. fst (process_row (sample_env (page_of sample_rows)) sample_page row))
          (find_all (named ''tr'') (Tag ''tbody'' [] [] sample_rows))
        = [letter_A, letter_B, letter_G, letter_H]"
    by (simp add: sample_tr) (simp add: sample_rows_def sample_process_rows)
  moreover have "today (sample_env (page_of sample_rows)) = py ''2024-03-20''"
    by (simp add: sample_env_def)
  moreover have "resolve_site_name sample_page None = py ''school.example''"
    by code_simp
  ultimately show ?thesis
    by (simp add: crawl_success [OF sample_get sample_parse sample_tbody])
qed


section \<open>The claims\<close>

text \<open>
  C1, as the code has it. The call returns an envelope unless the request raises an
  exception that is not a \<open>requests.RequestException\<close>: that exception is caught
  nowhere and leaves the call. Every failure that is caught gives an envelope without
  letters whose \<open>error\<close> is set: a \<open>RequestException\<close> of the request gives its
  text, an exception of the parser gives the prefix of the source and its text, and a
  page without a table body gives the message of the source.
\<close>

theorem returns_unless_request_escapes:
  "((\<exists>X. fst (crawl_school_letters E page sn) = Inr X) \<longleftrightarrow>
      (\<nexists>msg. http_get E page = Inl (Exception msg))) \<and>
   (\<forall>msg. http_get E page = Inl (Exception msg) \<longrightarrow>
      fst (crawl_school_letters E page sn) = Inl (Exception msg)) \<and>
   (\<forall>msg. http_get E page = Inl (RequestException msg) \<longrightarrow>
      (\<exists>X. fst (crawl_school_letters E page sn) = Inr X \<and> letters X = [] \<and>
           error (meta X) = Some msg)) \<and>
   (\<forall>body e. http_get E page = Inr body \<and> html_parse E body = Inl e \<longrightarrow>
      (\<exists>X. fst (crawl_school_letters E page sn) = Inr X \<and> letters X = [] \<and>
           error (meta X) = Some (parse_error_prefix @ exc_str e))) \<and>
   (\<forall>body soup. http_get E page = Inr body \<and> html_parse E body = Inr soup \<and>
        find_tbody soup = None \<longrightarrow>
      (\<exists>X. fst (crawl_school_letters E page sn) = Inr X \<and> letters X = [] \<and>
           error (meta X) = Some table_not_found_message))"
proof (intro conjI allI impI)
  show "(\<exists>X. fst (crawl_school_letters E page sn) = Inr X) \<longleftrightarrow>
      (\<nexists>msg. http_get E page = Inl (Exception msg))"
    by (cases E page rule: crawl_cases)
       (simp_all add: crawl_fetch_failure crawl_fetch_escape crawl_parse_failure
                      crawl_table_not_found crawl_success)
next
  fix msg
  assume "http_get E page = Inl (Exception msg)"
  then show "fst (crawl_school_letters E page sn) = Inl (Exception msg)"
    by (rule crawl_fetch_escape)
next
  fix msg
  assume "http_get E page = Inl (RequestException msg)"
  then show "\<exists>X. fst (crawl_school_letters E page sn) = Inr X \<and> letters X = [] \<and>
           error (meta X) = Some msg"
    by (simp add: crawl_fetch_failure failure_def)
next
  fix body e
  assume "http_get E page = Inr body \<and> html_parse E body = Inl e"
  then show "\<exists>X. fst (crawl_school_letters E page sn) = Inr X \<and> letters X = [] \<and>
           error (meta X) = Some (parse_error_prefix @ exc_str e)"
    by (simp add: crawl_parse_failure failure_def)
next
  fix body soup
  assume "http_get E page = Inr body \<and> html_parse E body = Inr soup \<and> find_tbody soup = None"
  then show "\<exists>X. fst (crawl_school_letters E page sn) = Inr X \<and> letters X = [] \<and>
           error (meta X) = Some table_not_found_message"
    by (simp add: crawl_table_not_found failure_def)
qed

theorem returns_unless_request_escapes_witness:
  "(\<exists>X. fst (crawl_school_letters (sample_env (page_of sample_rows)) sample_page None) = Inr X) \<and>
   (\<exists>X. fst (crawl_school_letters (sample_env (page_of sample_rows)) unserved_page None) = Inr X \<and>
        letters X = [] \<and> error (meta X) = Some (exc_str invalid_schema)) \<and>
   (\<exists>X. fst (crawl_school_letters (sample_env (page_of sample_rows)) broken_page None) = Inr X \<and>
        letters X = [] \<and>
        error (meta X) = Some (parse_error_prefix @ exc_str parser_rejected_markup)) \<and>
   (\<exists>X. fst (crawl_school_letters (sample_env (Tag ''[document]'' [] [] [])) sample_page None)
          = Inr X \<and>
        letters X = [] \<and> error (meta X) = Some table_not_found_message) \<and>
   fst (crawl_school_letters (sample_env (page_of sample_rows)) empty_label_page None)
     = Inl location_parse_error"
proof -
  let ?E = "sample_env (page_of sample_rows)"
  have "\<nexists>msg. http_get ?E sample_page = Inl (Exception msg)"
    by (simp add: sample_get)
  with returns_unless_request_escapes [of ?E sample_page None]
  have 1: "\<exists>X. fst (crawl_school_letters ?E sample_page None) = Inr X"
    by blast
  have "http_get ?E unserved_page = Inl (RequestException (exc_str invalid_schema))"
    by (simp add: sample_get_unserved invalid_schema_def)
  with returns_unless_request_escapes [of ?E unserved_page None]
  have 2: "\<exists>X. fst (crawl_school_letters ?E unserved_page None) = Inr X \<and>
        letters X = [] \<and> error (meta X) = Some (exc_str invalid_schema)"
    by blast
  from returns_unless_request_escapes [of ?E broken_page None]
    sample_get_broken [of "page_of sample_rows"] sample_parse_broken [of "page_of sample_rows"]
  have 3: "\<exists>X. fst (crawl_school_letters ?E broken_page None) = Inr X \<and> letters X = [] \<and>
        error (meta X) = Some (parse_error_prefix @ exc_str parser_rejected_markup)"
    by blast
  from returns_unless_request_escapes [of "sample_env (Tag ''[document]'' [] [] [])" sample_page None]
    sample_get [of "Tag ''[document]'' [] [] []"] sample_parse [of "Tag ''[document]'' [] [] []"]
    empty_page_no_tbody
  have 4: "\<exists>X. fst (crawl_school_letters (sample_env (Tag ''[document]'' [] [] [])) sample_page
                      None) = Inr X \<and>
        letters X = [] \<and> error (meta X) = Some table_not_found_message"
    by blast
  have "http_get ?E empty_label_page = Inl (Exception (exc_str location_parse_error))"
    by (simp add: sample_get_empty_label location_parse_error_def)
  with returns_unless_request_escapes [of ?E empty_label_page None]
  have "fst (crawl_school_letters ?E empty_label_page None)
          = Inl (Exception (exc_str location_parse_error))"
    by blast
  then have 5: "fst (crawl_school_letters ?E empty_label_page None) = Inl location_parse_error"
    by (simp add: location_parse_error_def)
  from 1 2 3 4 5 show ?thesis by (intro conjI)
qed

text \<open>
  C1 as stated fails. For the address \<open>http://a..b/\<close> the request raises the
  \<open>LocationParseError\<close> of \<open>urllib3\<close>, which is not a \<open>RequestException\<close>: no
  envelope is returned, the exception leaves the call.
\<close>

theorem request_escape_counterexample:
  "http_get (sample_env (page_of sample_rows)) (py ''http://a..b/'') =
     Inl (Exception (py ''Failed to parse: '' @ [0x27] @ py ''a..b'' @ [0x27] @
                     py '', label empty or too long'')) \<and>
   fst (crawl_school_letters (sample_env (page_of sample_rows)) (py ''http://a..b/'') None) =
     Inl (Exception (py ''Failed to parse: '' @ [0x27] @ py ''a..b'' @ [0x27] @
                     py '', label empty or too long''))"
  by code_simp

text \<open>
  C3. In every envelope that a call returns, on each of the four ways that return one,
  \<open>total_count\<close> is the number of the letters.
\<close>

theorem total_count_is_length:
  assumes "fst (crawl_school_letters E page sn) = Inr X"
  shows "total_count (meta X) = int (length (letters X))"
  using assms
  by (cases E page rule: crawl_cases)
     (auto simp: crawl_fetch_failure crawl_fetch_escape crawl_parse_failure
                 crawl_table_not_found crawl_success failure_def)

theorem total_count_is_length_witness:
  "fst (crawl_school_letters (sample_env (page_of sample_rows)) sample_page None) =
     Inr \<lparr>letters = [letter_A, letter_B, letter_G, letter_H],
          meta = \<lparr>total_count = 4, last_updated = py ''2024-03-20'',
                  source = py ''school.example'', page_url = sample_page, error = None\<rparr>\<rparr> \<and>
   (4::int) = int (length [letter_A, letter_B, letter_G, letter_H])"
  using total_count_is_length [OF sample_letters] sample_letters by simp

text \<open>
  C2. A returned envelope has an \<open>error\<close> exactly when the request raised, the parser
  raised or no table body was found. When the request and the parser succeed and a
  table body is found, the call returns, \<open>error\<close> is absent and the letters are the
  records of the rows that give one, in the order of the rows, whatever the other rows
  do: a row whose extraction raises is logged and appends nothing, and the loop goes
  on.
\<close>

theorem error_only_on_failure:
  "(\<forall>X. fst (crawl_school_letters E page sn) = Inr X \<longrightarrow>
      (error (meta X) \<noteq> None \<longleftrightarrow>
         (\<exists>e. http_get E page = Inl e) \<or>
         (\<exists>body e. http_get E page = Inr body \<and> html_parse E body = Inl e) \<or>
         (\<exists>body soup. http_get E page = Inr body \<and> html_parse E body = Inr soup \<and>
            find_tbody soup = None))) \<and>
   (\<forall>body soup tbody. http_get E page = Inr body \<and> html_parse E body = Inr soup \<and>
        find_tbody soup = Some tbody \<longrightarrow>
        (\<exists>X. fst (crawl_school_letters E page sn) = Inr X \<and> error (meta X) = None \<and>
             letters X =
               List.map_filter (\<lambda>row. fst (process_row E page row))
                 (find_all (named ''tr'') tbody))) \<and>
   (\<forall>row e lg. find_node (named ''th'') row = None \<and> 4 \<le> length (find_all (named ''td'') row) \<and>
        extract_row E page row (find_all (named ''td'') row) = (Inl e, lg) \<longrightarrow>
        process_row E page row = (None, lg @ [Log_row_error e]))"
proof (intro conjI allI impI)
  fix X
  assume "fst (crawl_school_letters E page sn) = Inr X"
  then show "error (meta X) \<noteq> None \<longleftrightarrow>
         (\<exists>e. http_get E page = Inl e) \<or>
         (\<exists>body e. http_get E page = Inr body \<and> html_parse E body = Inl e) \<or>
         (\<exists>body soup. http_get E page = Inr body \<and> html_parse E body = Inr soup \<and>
            find_tbody soup = None)"
    by (cases E page rule: crawl_cases)
       (auto simp: crawl_fetch_failure crawl_fetch_escape crawl_parse_failure
                   crawl_table_not_found crawl_success failure_def)
next
  fix body soup tbody
  assume "http_get E page = Inr body \<and> html_parse E body = Inr soup \<and> find_tbody soup = Some tbody"
  then show "\<exists>X. fst (crawl_school_letters E page sn) = Inr X \<and> error (meta X) = None \<and>
             letters X =
               List.map_filter (\<lambda>row. fst (process_row E page row))
                 (find_all (named ''tr'') tbody)"
    by (simp add: crawl_success)
next
  fix row e lg
  assume "find_node (named ''th'') row = None \<and> 4 \<le> length (find_all (named ''td'') row) \<and>
        extract_row E page row (find_all (named ''td'') row) = (Inl e, lg)"
  then show "process_row E page row = (None, lg @ [Log_row_error e])"
    by (simp add: process_row_raising)
qed

lemma sample_raising:
  "find_node (named ''th'') raising_row = None \<and>
   4 \<le> length (find_all (named ''td'') raising_row) \<and>
   extract_row (sample_env soup) sample_page raising_row (find_all (named ''td'') raising_row)
     = (Inl (Exception (py ''Invalid IPv6 URL'')), [])"
  by code_simp

lemma sample_map_filter:
  "List.map_filter (\<lambda>row. fst (process_row (sample_env soup) sample_page row))
     (find_all (named ''tr'') (Tag ''tbody'' [] [] sample_rows))
   = [letter_A, letter_B, letter_G, letter_H]"
  by (simp add: sample_tr) (simp add: sample_rows_def sample_process_rows)

theorem error_only_on_failure_witness:
  "(\<exists>X. fst (crawl_school_letters (sample_env (page_of sample_rows)) sample_page None) = Inr X \<and>
        error (meta X) = None \<and> letters X = [letter_A, letter_B, letter_G, letter_H]) \<and>
   process_row (sample_env (page_of sample_rows)) sample_page raising_row
     = (None, [Log_row_error (Exception (py ''Invalid IPv6 URL''))])"
proof -
  let ?E = "sample_env (page_of sample_rows)"
  note T = error_only_on_failure [of ?E sample_page None]
  from T sample_located [of sample_rows]
  have "\<exists>X. fst (crawl_school_letters ?E sample_page None) = Inr X \<and> error (meta X) = None \<and>
        letters X =
          List.map_filter (\<lambda>row. fst (process_row ?E sample_page row))
            (find_all (named ''tr'') (Tag ''tbody'' [] [] sample_rows))"
    by blast
  then have "\<exists>X. fst (crawl_school_letters ?E sample_page None) = Inr X \<and>
        error (meta X) = None \<and> letters X = [letter_A, letter_B, letter_G, letter_H]"
    by (simp add: sample_map_filter)
  moreover from T sample_raising [of "page_of sample_rows"]
  have "process_row ?E sample_page raising_row
          = (None, [] @ [Log_row_error (Exception (py ''Invalid IPv6 URL''))])"
    by blast
  ultimately show ?thesis by simp
qed

text \<open>
  C7. No letter of a returned envelope has one of the two markers as its \<open>number\<close>,
  and a row whose first cell has a marker as its text appends nothing.
\<close>

theorem markers_never_numbered:
  "(\<forall>X. fst (crawl_school_letters E page sn) = Inr X \<longrightarrow>
      (\<forall>r \<in> set (letters X). number r \<noteq> marker_notice \<and> number r \<noteq> marker_joint_notice)) \<and>
   (\<forall>row c cs. find_all (named ''td'') row = c # cs \<and>
        (get_text c = marker_notice \<or> get_text c = marker_joint_notice) \<longrightarrow>
        process_row E page row = (None, []))"
proof (intro conjI ballI allI impI)
  fix X r
  assume "fst (crawl_school_letters E page sn) = Inr X" and "r \<in> set (letters X)"
  then obtain row where "fst (process_row E page row) = Some r"
    using letters_from_rows by blast
  then have "process_row E page row = (Some r, snd (process_row E page row))"
    by (rule fst_process_row)
  then have "extract_row E page row (find_all (named ''td'') row)
             = (Inr (Some r), snd (process_row E page row))"
    by (rule process_row_Some)
  then show "number r \<noteq> marker_notice" and "number r \<noteq> marker_joint_notice"
    by (rule extract_row_Some)+
next
  fix row c cs
  assume "find_all (named ''td'') row = c # cs \<and>
          (get_text c = marker_notice \<or> get_text c = marker_joint_notice)"
  then show "process_row E page row = (None, [])"
    by (simp add: process_row_marker)
qed

lemma sample_pinned:
  "find_all (named ''td'') pinned_row =
     td [NavigableString (py '' '' @ marker_notice @ py '' '')] #
     [td [NavigableString (py ''Rules'')], td [NavigableString (py ''office'')],
      td [NavigableString (py ''2024.01.01'')]] \<and>
   (get_text (td [NavigableString (py '' '' @ marker_notice @ py '' '')]) = marker_notice \<or>
    get_text (td [NavigableString (py '' '' @ marker_notice @ py '' '')]) = marker_joint_notice)"
  by code_simp

lemma sample_nbsp_pinned:
  "find_all (named ''td'') nbsp_pinned_row =
     td [NavigableString (0xA0 # marker_notice)] #
     [td [NavigableString (py ''Rules'')], td [NavigableString (py ''office'')],
      td [NavigableString (py ''2024.01.01'')]] \<and>
   (get_text (td [NavigableString (0xA0 # marker_notice)]) = marker_notice \<or>
    get_text (td [NavigableString (0xA0 # marker_notice)]) = marker_joint_notice)"
  by code_simp

theorem markers_never_numbered_witness:
  "fst (crawl_school_letters (sample_env (page_of sample_rows)) sample_page None) =
     Inr \<lparr>letters = [letter_A, letter_B, letter_G, letter_H],
          meta = \<lparr>total_count = 4, last_updated = py ''2024-03-20'',
                  source = py ''school.example'', page_url = sample_page, error = None\<rparr>\<rparr> \<and>
   list_all (\<lambda>r. number r \<noteq> marker_notice \<and> number r \<noteq> marker_joint_notice)
     [letter_A, letter_B, letter_G, letter_H] \<and>
   get_text (td [NavigableString (py '' '' @ marker_notice @ py '' '')]) = marker_notice \<and>
   process_row (sample_env (page_of sample_rows)) sample_page pinned_row = (None, []) \<and>
   get_text (td [NavigableString (0xA0 # marker_notice)]) = marker_notice \<and>
   process_row (sample_env (page_of sample_rows)) sample_page nbsp_pinned_row = (None, [])"
proof -
  let ?E = "sample_env (page_of sample_rows)"
  note T = markers_never_numbered [of ?E sample_page None]
  from T sample_letters
  have "\<forall>r \<in> set [letter_A, letter_B, letter_G, letter_H].
          number r \<noteq> marker_notice \<and> number r \<noteq> marker_joint_notice"
    by fastforce
  then have "list_all (\<lambda>r. number r \<noteq> marker_notice \<and> number r \<noteq> marker_joint_notice)
               [letter_A, letter_B, letter_G, letter_H]"
    by simp
  moreover from T sample_pinned
  have "process_row ?E sample_page pinned_row = (None, [])"
    by blast
  moreover from T sample_nbsp_pinned
  have "process_row ?E sample_page nbsp_pinned_row = (None, [])"
    by blast
  moreover have "get_text (td [NavigableString (py '' '' @ marker_notice @ py '' '')]) = marker_notice"
    and "get_text (td [NavigableString (0xA0 # marker_notice)]) = marker_notice"
    by code_simp+
  ultimately show ?thesis by (simp add: sample_letters)
qed

text \<open>
  C8. A row with a header cell or with fewer than four data cells appends nothing,
  and every letter of a returned envelope is the record of a row of the table body
  found that has no header cell and at least four data cells.
\<close>

theorem rows_without_four_cells_emit_nothing:
  "(\<forall>row. find_node (named ''th'') row \<noteq> None \<or> length (find_all (named ''td'') row) < 4 \<longrightarrow>
        process_row E page row = (None, [])) \<and>
   (\<forall>X. fst (crawl_school_letters E page sn) = Inr X \<longrightarrow>
      (\<forall>r \<in> set (letters X).
         \<exists>body soup tbody. http_get E page = Inr body \<and> html_parse E body = Inr soup \<and>
           find_tbody soup = Some tbody \<and>
           (\<exists>row \<in> set (find_all (named ''tr'') tbody).
               find_node (named ''th'') row = None \<and>
               4 \<le> length (find_all (named ''td'') row) \<and>
               fst (process_row E page row) = Some r)))"
proof (intro conjI ballI allI impI)
  fix row
  assume "find_node (named ''th'') row \<noteq> None \<or> length (find_all (named ''td'') row) < 4"
  then show "process_row E page row = (None, [])"
    by (auto simp: process_row_header process_row_short)
next
  fix X r
  assume "fst (crawl_school_letters E page sn) = Inr X" and "r \<in> set (letters X)"
  then obtain body soup tbody row where loc: "http_get E page = Inr body"
      "html_parse E body = Inr soup" "find_tbody soup = Some tbody"
    and row: "row \<in> set (find_all (named ''tr'') tbody)" "fst (process_row E page row) = Some r"
    using letters_from_rows by blast
  from row(2) have "process_row E page row = (Some r, snd (process_row E page row))"
    by (rule fst_process_row)
  then have "find_node (named ''th'') row = None" "4 \<le> length (find_all (named ''td'') row)"
    by (rule process_row_Some)+
  with loc row show "\<exists>body soup tbody. http_get E page = Inr body \<and> html_parse E body = Inr soup \<and>
         find_tbody soup = Some tbody \<and>
         (\<exists>row \<in> set (find_all (named ''tr'') tbody).
             find_node (named ''th'') row = None \<and> 4 \<le> length (find_all (named ''td'') row) \<and>
             fst (process_row E page row) = Some r)"
    by blast
qed

lemma sample_header_short:
  "find_node (named ''th'') header_row \<noteq> None" "length (find_all (named ''td'') short_row) < 4"
  by code_simp+

theorem rows_without_four_cells_emit_nothing_witness:
  "find_node (named ''th'') header_row \<noteq> None \<and>
   process_row (sample_env (page_of sample_rows)) sample_page header_row = (None, []) \<and>
   length (find_all (named ''td'') short_row) < 4 \<and>
   process_row (sample_env (page_of sample_rows)) sample_page short_row = (None, []) \<and>
   (\<exists>X. fst (crawl_school_letters (sample_env (page_of sample_rows)) sample_page None) = Inr X \<and>
        letter_A \<in> set (letters X)) \<and>
   (\<exists>row \<in> set sample_rows.
       find_node (named ''th'') row = None \<and> 4 \<le> length (find_all (named ''td'') row) \<and>
       fst (process_row (sample_env (page_of sample_rows)) sample_page row) = Some letter_A)"
proof -
  let ?E = "sample_env (page_of sample_rows)"
  note T = rows_without_four_cells_emit_nothing [of ?E sample_page None]
  from T sample_header_short
  have "process_row ?E sample_page header_row = (None, [])"
    and "process_row ?E sample_page short_row = (None, [])"
    by blast+
  moreover have A: "\<exists>X. fst (crawl_school_letters ?E sample_page None) = Inr X \<and>
        letter_A \<in> set (letters X)"
    by (simp add: sample_letters)
  moreover from T A
  have "\<exists>body soup tbody. http_get ?E sample_page = Inr body \<and> html_parse ?E body = Inr soup \<and>
         find_tbody soup = Some tbody \<and>
         (\<exists>row \<in> set (find_all (named ''tr'') tbody).
             find_node (named ''th'') row = None \<and> 4 \<le> length (find_all (named ''td'') row) \<and>
             fst (process_row ?E sample_page row) = Some letter_A)"
    by blast
  then have "\<exists>row \<in> set sample_rows.
       find_node (named ''th'') row = None \<and> 4 \<le> length (find_all (named ''td'') row) \<and>
       fst (process_row ?E sample_page row) = Some letter_A"
    by (auto simp: sample_get sample_parse sample_tbody sample_tr)
  ultimately show ?thesis using sample_header_short by simp
qed







subsection \<open>The data row of the scenario\<close>

lemma data_cells_facts:
  "length data_cells = 4"
  "get_text (data_cells ! 0) = py ''1''"
  "py ''1'' \<noteq> marker_notice" "py ''1'' \<noteq> marker_joint_notice"
  "filter (has_class ''ta_l'') data_cells = []"
  "find_node (named ''a'') (data_cells ! Suc 0) =
     Some (Tag ''a'' [(''href'', py ''/view?id=9'')] [] [NavigableString (py ''Notice A'')])"
  "get (Tag ''a'' [(''href'', py ''/view?id=9'')] [] [NavigableString (py ''Notice A'')]) ''href''
     = py ''/view?id=9''"
  "get_text (Tag ''a'' [(''href'', py ''/view?id=9'')] [] [NavigableString (py ''Notice A'')])
     = py ''Notice A''"
  "find_date data_cells = (py ''2024.01.10'', [])"
  "format_date (py ''2024.01.10'') = py ''2024-01-10''"
  "list_ex (\<lambda>cell. find_node (named ''img'') cell \<noteq> None) data_cells = False"
  "startswith (py ''/view?id=9'') (py ''http'') = False"
  "py ''/view?id=9'' \<noteq> []"
  by code_simp+

lemma process_data_row:
  assumes "find_node (named ''th'') row = None" and "find_all (named ''td'') row = data_cells"
    and "urljoin E page (py ''/view?id=9'') = Inr u"
  shows "process_row E page row =
           (Some \<lparr>number = py ''1'', title = py ''Notice A'', author = [],
                  date = py ''2024-01-10'', views = py ''0'', url = u,
                  has_attachment = False\<rparr>, [])"
proof -
  have "title_and_link E page row data_cells = Inr (py ''Notice A'', u)"
    using assms by (simp add: title_and_link_def find_node_class data_cells_facts resolve_def)
  then have "extract_row E page row data_cells =
           (Inr (Some \<lparr>number = py ''1'', title = py ''Notice A'', author = [],
                  date = py ''2024-01-10'', views = py ''0'', url = u,
                  has_attachment = False\<rparr>), [])"
    by (simp add: extract_row_def data_cells_facts del: not_None_eq)
  with assms show ?thesis
    by (simp add: process_row_def data_cells_facts)
qed

lemma scenario_rows:
  "find_all (named ''tr'') (Tag ''tbody'' [] [] [header_row, pinned_row, data_row])
     = [header_row, pinned_row, data_row]"
  "find_node (named ''th'') data_row = None"
  "find_all (named ''td'') data_row = data_cells"
  "urljoin (sample_env soup) sample_page (py ''/view?id=9'')
     = Inr (py ''https://www.school.example/view?id=9'')"
  by code_simp+

text \<open>
  C6. A table body with a header row, a pinned row whose first cell has a marker as
  its text, and the data row with the cells \<open>1\<close>, the anchor \<open>Notice A\<close> to
  \<open>/view?id=9\<close>, \<open>author\<close> and \<open>2024.01.10\<close>: the call returns, the letters of
  the envelope are the one record of the data row, whose \<open>url\<close> is the \<open>href\<close>
  resolved against the address of the page, and \<open>total_count\<close> is 1.
\<close>

theorem end_to_end_scenario:
  assumes "http_get E page = Inr body" and "html_parse E body = Inr soup"
    and "find_tbody soup = Some tbody"
    and "find_all (named ''tr'') tbody = [header, pinned, data]"
    and "find_node (named ''th'') header \<noteq> None"
    and "find_all (named ''td'') pinned = c # cs"
    and "get_text c = marker_notice \<or> get_text c = marker_joint_notice"
    and "find_node (named ''th'') data = None"
    and "find_all (named ''td'') data = data_cells"
    and "urljoin E page (py ''/view?id=9'') = Inr u"
  shows "\<exists>X. fst (crawl_school_letters E page sn) = Inr X \<and>
           letters X =
             [\<lparr>number = py ''1'', title = py ''Notice A'', author = [],
               date = py ''2024-01-10'', views = py ''0'', url = u,
               has_attachment = False\<rparr>] \<and>
           total_count (meta X) = 1"
proof -
  have "process_row E page header = (None, [])"
    using assms(5) by (rule process_row_header)
  moreover have "process_row E page pinned = (None, [])"
    using assms(6,7) by (rule process_row_marker)
  moreover note process_data_row [OF assms(8,9,10)]
  ultimately show ?thesis
    by (simp add: crawl_success [OF assms(1,2,3)] assms(4))
qed

theorem end_to_end_scenario_witness:
  "\<exists>X. fst (crawl_school_letters (sample_env (page_of [header_row, pinned_row, data_row]))
               sample_page None) = Inr X \<and>
       letters X =
         [\<lparr>number = py ''1'', title = py ''Notice A'', author = [], date = py ''2024-01-10'',
           views = py ''0'', url = py ''https://www.school.example/view?id=9'',
           has_attachment = False\<rparr>] \<and>
       total_count (meta X) = 1"
  by (rule end_to_end_scenario [OF sample_get sample_parse sample_tbody scenario_rows(1)
        sample_header_short(1) conjunct1 [OF sample_pinned] conjunct2 [OF sample_pinned]
        scenario_rows(2) scenario_rows(3) scenario_rows(4)])

text \<open>
  C9, as the code has it. The test of the code is whether the link starts with
  \<open>http\<close>. For a row that appends a record and whose title cell has an anchor: a link
  that is not empty and does not start with \<open>http\<close> is resolved against the address
  of the page, and a link that starts with \<open>http\<close> is left as it is.
\<close>

theorem links_resolved_unless_http:
  assumes "process_row E page row = (Some r, lg)" and "row_link row = Some link"
  shows "(link \<noteq> [] \<and> \<not> startswith link (py ''http'') \<longrightarrow>
            urljoin E page link = Inr (url r)) \<and>
         (startswith link (py ''http'') \<longrightarrow> url r = link)"
proof -
  from assms(1) have "extract_row E page row (find_all (named ''td'') row) = (Inr (Some r), lg)"
    by (rule process_row_Some)
  then obtain ttl where "title_and_link E page row (find_all (named ''td'') row) = Inr (ttl, url r)"
    using extract_row_Some(4) by blast
  then have "resolve E page link = Inr (url r)"
    using assms(2) by (rule title_and_link_row_link)
  then show ?thesis
    by (auto simp: resolve_def split: if_splits)
qed

lemma sample_links:
  "row_link data_row = Some (py ''/view?id=9'')"
  "py ''/view?id=9'' \<noteq> []" "\<not> startswith (py ''/view?id=9'') (py ''http'')"
  "row_link absolute_row = Some (py ''https://other.example/n/8'')"
  "startswith (py ''https://other.example/n/8'') (py ''http'')"
  by code_simp+

theorem links_resolved_unless_http_witness:
  "process_row (sample_env (page_of sample_rows)) sample_page data_row = (Some letter_A, []) \<and>
   row_link data_row = Some (py ''/view?id=9'') \<and>
   \<not> startswith (py ''/view?id=9'') (py ''http'') \<and>
   urljoin (sample_env (page_of sample_rows)) sample_page (py ''/view?id=9'')
     = Inr (url letter_A) \<and>
   process_row (sample_env (page_of sample_rows)) sample_page absolute_row
     = (Some letter_G, [Log_date_at 2 (py ''2024.03.20'')]) \<and>
   row_link absolute_row = Some (py ''https://other.example/n/8'') \<and>
   startswith (py ''https://other.example/n/8'') (py ''http'') \<and>
   url letter_G = py ''https://other.example/n/8''"
  using links_resolved_unless_http [OF sample_process_rows(3) [of "page_of sample_rows"]
          sample_links(1)]
        links_resolved_unless_http [OF sample_process_rows(7) [of "page_of sample_rows"]
          sample_links(4)]
  by (simp add: sample_links sample_process_rows)

text \<open>
  C9 as stated fails. The link \<open>http-guide.html\<close> is relative, it has no scheme, and
  it starts with \<open>http\<close>: the \<open>url\<close> of the record is the link itself, not the link
  resolved against the address of the page.
\<close>

theorem relative_link_counterexample:
  "fst (crawl_school_letters (sample_env (page_of [http_guide_row])) sample_page None) =
     Inr \<lparr>letters =
            [\<lparr>number = py ''7'', title = py ''Notice F'', author = [],
              date = py ''2024-03-19'', views = py ''0'', url = py ''http-guide.html'',
              has_attachment = False\<rparr>],
          meta = \<lparr>total_count = 1, last_updated = py ''2024-03-20'',
                  source = py ''school.example'', page_url = sample_page, error = None\<rparr>\<rparr> \<and>
   row_link http_guide_row = Some (py ''http-guide.html'') \<and>
   \<not> has_scheme (py ''http-guide.html'') \<and>
   urljoin (sample_env (page_of [http_guide_row])) sample_page (py ''http-guide.html'')
     = Inr (py ''https://www.school.example/board/http-guide.html'')"
  by code_simp







end
